theory Spec2Isabelle
  imports Complex_Main "HOL-Library.Multiset" "HOL-Library.Product_Lexorder"
begin

section \<open>JavaScript values handled by the route\<close>

text \<open>
  A JavaScript number: an IEEE double. \<open>Number.isFinite\<close> separates \<open>NaN\<close> and the two
  infinities from the finite values. A finite double is a rational (\<open>rat number\<close>, for the
  id of a request); the doubles read from the integer columns of the tables and their sums
  are whole (\<open>int number\<close>).
\<close>

datatype 'a number = NaN | PosInfinity | NegInfinity | Finite 'a

fun isFinite :: "'a number \<Rightarrow> bool" where
  "isFinite (Finite q) = True"
| "isFinite NaN = False"
| "isFinite PosInfinity = False"
| "isFinite NegInfinity = False"

text \<open>The value \<open>req.json()\<close> resolves to.\<close>

datatype json =
    JNull
  | JBool bool
  | JNumber "rat number"
  | JString string
  | JArray "json list"
  | JObject "(string \<times> json) list"

text \<open>
  The conversions that \<open>Number(id)\<close> delegates to the JavaScript engine are parameters of the
  model: the engine's string-to-number conversion, its conversion of an array or object
  (through the primitive value of the object), and the message of the \<open>TypeError\<close> raised by
  destructuring \<open>null\<close>.
\<close>

record js_runtime =
  StringToNumber :: "string \<Rightarrow> rat number"
  ObjectToNumber :: "json \<Rightarrow> rat number"
  destructure_message :: "string option"

text \<open>\<open>Number(v)\<close>: \<open>null\<close> is 0, \<open>true\<close> is 1, \<open>false\<close> is 0, a number is itself.\<close>

fun Number :: "js_runtime \<Rightarrow> json \<Rightarrow> rat number" where
  "Number rt JNull = Finite 0"
| "Number rt (JBool b) = Finite (if b then 1 else 0)"
| "Number rt (JNumber n) = n"
| "Number rt (JString s) = StringToNumber rt s"
| "Number rt (JArray xs) = ObjectToNumber rt (JArray xs)"
| "Number rt (JObject kvs) = ObjectToNumber rt (JObject kvs)"

text \<open>
  Reading a property, as the destructuring \<open>const { id } = body\<close> does on a value that is
  not \<open>null\<close>: an object yields the value stored under the key (the last one when the JSON
  text repeats the key), everything else has no such property. \<open>None\<close> is \<open>undefined\<close>.
\<close>

fun get_property :: "json \<Rightarrow> string \<Rightarrow> json option" where
  "get_property (JObject kvs) k = map_of (rev kvs) k"
| "get_property JNull k = None"
| "get_property (JBool b) k = None"
| "get_property (JNumber n) k = None"
| "get_property (JString s) k = None"
| "get_property (JArray xs) k = None"

text \<open>\<open>await req.json().catch(() => ({}))\<close>: a body that does not parse counts as \<open>{}\<close>.\<close>

definition json_or_empty :: "json option \<Rightarrow> json" where
  "json_or_empty req = (case req of None \<Rightarrow> JObject [] | Some b \<Rightarrow> b)"

section \<open>Whole numbers as doubles\<close>

text \<open>
  The route computes with JavaScript numbers. A whole number is read as the double nearest
  to it: itself up to \<open>2^53\<close>; beyond, it is rounded to 53 significant bits, a tie going to
  the even neighbour, and from \<open>2^1024\<close> on the result is an infinity.
\<close>

function bit_length :: "int \<Rightarrow> nat" where
  "bit_length n = (if n \<le> 0 then 0 else Suc (bit_length (n div 2)))"
  by pat_completeness auto
termination
  by (relation "measure nat") auto

declare bit_length.simps [simp del]

text \<open>The double nearest to a whole number that is not negative.\<close>

definition nearest_double :: "int \<Rightarrow> int" where
  "nearest_double n =
     (if n \<le> 2 ^ 53 then n
      else
        (let e = bit_length n - 53;
             q = n div 2 ^ e;
             r = n mod 2 ^ e;
             half = 2 ^ (e - 1)
         in (if half < r \<or> (r = half \<and> odd q) then q + 1 else q) * 2 ^ e))"

definition to_double :: "int \<Rightarrow> int number" where
  "to_double v =
     (let m = nearest_double \<bar>v\<bar> in
      if 2 ^ 1024 \<le> m then (if 0 < v then PosInfinity else NegInfinity)
      else Finite (if 0 \<le> v then m else - m))"

text \<open>
  \<open>x + y\<close> on doubles with whole values: the double nearest to the exact sum; an infinity
  absorbs every finite number, and the two infinities add up to \<open>NaN\<close>.
\<close>

fun js_plus :: "int number \<Rightarrow> int number \<Rightarrow> int number" where
  "js_plus (Finite a) (Finite b) = to_double (a + b)"
| "js_plus NaN y = NaN"
| "js_plus x NaN = NaN"
| "js_plus PosInfinity NegInfinity = NaN"
| "js_plus NegInfinity PosInfinity = NaN"
| "js_plus PosInfinity y = PosInfinity"
| "js_plus x PosInfinity = PosInfinity"
| "js_plus NegInfinity y = NegInfinity"
| "js_plus x NegInfinity = NegInfinity"

text \<open>\<open>Number(x ?? 0)\<close> on a nullable integer column.\<close>

definition Number_or_zero :: "int option \<Rightarrow> int number" where
  "Number_or_zero x = (case x of None \<Rightarrow> Finite 0 | Some v \<Rightarrow> to_double v)"

text \<open>
  A number written to an integer column: JSON has no \<open>NaN\<close> and no infinity, they are
  sent as \<open>null\<close>.
\<close>

fun to_column :: "int number \<Rightarrow> int option" where
  "to_column (Finite v) = Some v"
| "to_column NaN = None"
| "to_column PosInfinity = None"
| "to_column NegInfinity = None"

section \<open>The store: the tables ChargeRequests and Users\<close>

text \<open>
  Amounts and balances are integer currency units. The columns \<open>amount\<close> and
  \<open>balance\<close> may hold \<open>null\<close>, which the route reads as 0 (\<open>?? 0\<close>).
  Timestamps of requests are instants; \<open>last_charge_date\<close> is the ISO text the route writes.
\<close>

record charge_request =
  cr_id :: int
  user_id :: int
  amount :: "int option"
  approved :: bool
  requested_at :: "int option"

record user =
  u_id :: int
  phone_number :: string
  balance :: "int option"
  last_charge_date :: string

text \<open>
  The tables are lists of rows held in memory. Every call the route makes on the store is
  recorded, in order, in a journal. The journal is how statements about the order of writes
  and about calls that were never made are expressed; it has no influence on any result.
\<close>

datatype store_call =
    Select_ChargeRequests_by_id rat
  | Update_ChargeRequests_approved rat
  | Select_Users_by_id int
  | Update_Users_balance int "int number" string
  | Invalidate_balance_cache string
  | Select_ChargeRequests_list
  | Find_user_by_phone string
  | Insert_Users int string
  | Insert_ChargeRequests int int
  | Notify_admins

text \<open>
  How the database answers a call of \<open>PUT\<close> once the request has been found pending. It
  performs the call and answers; or it refuses, answering an error and changing nothing
  (the route does not look at the answers of its two updates, and reads a refused lookup
  as no user); or the call throws, nothing is changed, and the \<open>catch\<close> of the route
  answers 500 with the message of the error, if it has one. The lookups of \<open>GET\<close> and of
  the request in \<open>PUT\<close>, and the calls of \<open>POST\<close>, are taken to answer.
\<close>

datatype outcome = Succeeds | Errors | Throws "string option"

record store =
  ChargeRequests :: "charge_request list"
  Users :: "user list"
  balanceCache :: "(string \<times> int) list"
  journal :: "store_call list"
  flag_write :: outcome
  user_lookup :: outcome
  credit_write :: outcome

text \<open>What a call gives back to the route: its answer, or the error it throws.\<close>

datatype 'a returned = Answer 'a | Thrown "string option"

definition record_call :: "store_call \<Rightarrow> store \<Rightarrow> store" where
  "record_call c s = s\<lparr>journal := journal s @ [c]\<rparr>"

text \<open>
  \<open>.maybeSingle()\<close>: the row when exactly one row matches; no data when none matches, and
  an error with no data when several do. The route treats both alike (\<open>reqErr || !reqData\<close>,
  \<open>!user\<close>).
\<close>

definition maybeSingle :: "'a list \<Rightarrow> 'a option" where
  "maybeSingle rows = (case rows of [r] \<Rightarrow> Some r | _ \<Rightarrow> None)"

text \<open>\<open>.eq("id", idNum)\<close> on the integer key column.\<close>

definition eq_id :: "rat \<Rightarrow> int \<Rightarrow> bool" where
  "eq_id idNum i \<longleftrightarrow> of_int i = idNum"

definition select_request :: "rat \<Rightarrow> store \<Rightarrow> charge_request option \<times> store" where
  "select_request idNum s =
     (maybeSingle (filter (\<lambda>r. eq_id idNum (cr_id r)) (ChargeRequests s)),
      record_call (Select_ChargeRequests_by_id idNum) s)"

definition update_approved :: "rat \<Rightarrow> store \<Rightarrow> unit returned \<times> store" where
  "update_approved idNum s =
     (let s1 = record_call (Update_ChargeRequests_approved idNum) s in
      case flag_write s of
        Succeeds \<Rightarrow>
          (Answer (),
           s1\<lparr>ChargeRequests :=
                map (\<lambda>r. if eq_id idNum (cr_id r) then r\<lparr>approved := True\<rparr> else r)
                  (ChargeRequests s)\<rparr>)
      | Errors \<Rightarrow> (Answer (), s1)
      | Throws e \<Rightarrow> (Thrown e, s1))"

definition select_user :: "int \<Rightarrow> store \<Rightarrow> user option returned \<times> store" where
  "select_user userId s =
     (let s1 = record_call (Select_Users_by_id userId) s in
      case user_lookup s of
        Succeeds \<Rightarrow> (Answer (maybeSingle (filter (\<lambda>u. u_id u = userId) (Users s))), s1)
      | Errors \<Rightarrow> (Answer None, s1)
      | Throws e \<Rightarrow> (Thrown e, s1))"

definition update_user :: "int \<Rightarrow> int number \<Rightarrow> string \<Rightarrow> store \<Rightarrow> unit returned \<times> store" where
  "update_user userId newBalance now s =
     (let s1 = record_call (Update_Users_balance userId newBalance now) s in
      case credit_write s of
        Succeeds \<Rightarrow>
          (Answer (),
           s1\<lparr>Users :=
                map (\<lambda>u. if u_id u = userId
                          then u\<lparr>balance := to_column newBalance, last_charge_date := now\<rparr>
                          else u)
                  (Users s)\<rparr>)
      | Errors \<Rightarrow> (Answer (), s1)
      | Throws e \<Rightarrow> (Thrown e, s1))"

text \<open>
  Modelled from the spec: \<open>invalidateBalanceCache\<close> is imported from \<open>@/lib/db\<close>, which is
  not among the sources. The specification says that approval invalidates any cached balance
  snapshot for the user's phone number, so that subsequent reads are fresh: the snapshots
  kept under that phone number are dropped.
\<close>

definition invalidateBalanceCache :: "string \<Rightarrow> store \<Rightarrow> store" where
  "invalidateBalanceCache phone s =
     record_call (Invalidate_balance_cache phone)
       (s\<lparr>balanceCache := filter (\<lambda>e. fst e \<noteq> phone) (balanceCache s)\<rparr>)"

section \<open>The answers of the route\<close>

text \<open>
  An element of the list \<open>GET\<close> answers: the columns of the request (\<open>...rest\<close>) and three
  fields of the joined user, absent when the request has no user (\<open>Users?.\<close>); an absent
  field and a \<open>null\<close> column both read \<open>None\<close>.
\<close>

record item =
  rest :: charge_request
  phone :: "string option"
  currentBalance :: "int option"
  item_last_charge_date :: "string option"

text \<open>
  The JSON bodies of the answers: \<open>{ items }\<close>, \<open>{ success: true, id }\<close>,
  \<open>{ error }\<close> with the schema's report, \<open>{ success: false, error }\<close>,
  \<open>{ success: true, already: true }\<close> and \<open>{ success: true, balance }\<close>, with the
  values the route hands to \<open>json\<close>.
\<close>

datatype body =
    Items "item list"
  | Created int
  | Validation_error
  | Failure string
  | Already
  | Balance "int number"

type_synonym response = "nat \<times> body"

section \<open>PUT: approve a charge request\<close>

text \<open>What the \<open>catch\<close> of \<open>PUT\<close> answers: \<open>e?.message ?? "approve failed"\<close> with 500.\<close>

definition caught :: "string option \<Rightarrow> response" where
  "caught e = (500, Failure (case e of None \<Rightarrow> ''approve failed'' | Some m \<Rightarrow> m))"

text \<open>
  Lines 94 to 126 of \<open>PUT\<close> in \<open>app/api/charge-requests/route.ts\<close>: the approval of the
  request with the numeric id \<open>idNum\<close>. \<open>now\<close> is what \<open>nowISO()\<close> returns. The route
  awaits its two \<open>update\<close> calls and does not look at what they answer.
\<close>

definition approve :: "rat \<Rightarrow> string \<Rightarrow> store \<Rightarrow> response \<times> store" where
  "approve idNum now s =
    (let (reqData, s1) = select_request idNum s in
     case reqData of
       None \<Rightarrow> ((404, Failure ''not found''), s1)
     | Some r \<Rightarrow>
         if approved r then ((200, Already), s1)
         else
           (let userId = user_id r;
                amount = Number_or_zero (amount r);
                (flagged, s2) = update_approved idNum s1
            in case flagged of
                 Thrown e \<Rightarrow> (caught e, s2)
               | Answer _ \<Rightarrow>
                   (let (usr, s3) = select_user userId s2 in
                    case usr of
                      Thrown e \<Rightarrow> (caught e, s3)
                    | Answer None \<Rightarrow> ((404, Failure ''user not found''), s3)
                    | Answer (Some u) \<Rightarrow>
                        (let phone = phone_number u;
                             newBalance = js_plus (Number_or_zero (balance u)) amount;
                             (credited, s4) = update_user userId newBalance now s3
                         in case credited of
                              Thrown e \<Rightarrow> (caught e, s4)
                            | Answer _ \<Rightarrow>
                                ((200, Balance newBalance),
                                 invalidateBalanceCache phone s4)))))"

text \<open>
  \<open>PUT\<close>, lines 84 to 130: the checks on the body's \<open>id\<close>, then the approval. \<open>req\<close> is what
  \<open>req.json()\<close> resolves to (\<open>None\<close> when it rejects). Destructuring \<open>null\<close> throws; the
  \<open>catch\<close> answers 500 with the error's message (\<open>e?.message ?? "approve failed"\<close>).
  \<open>id == null\<close> holds of \<open>undefined\<close> and of \<open>null\<close>.
\<close>

definition PUT :: "js_runtime \<Rightarrow> string \<Rightarrow> json option \<Rightarrow> store \<Rightarrow> response \<times> store" where
  "PUT rt now req s =
    (let parsed = json_or_empty req in
     if parsed = JNull
     then ((500, Failure (case destructure_message rt of
                            None \<Rightarrow> ''approve failed'' | Some m \<Rightarrow> m)), s)
     else
       (case get_property parsed ''id'' of
          None \<Rightarrow> ((400, Failure ''id is required''), s)
        | Some JNull \<Rightarrow> ((400, Failure ''id is required''), s)
        | Some idv \<Rightarrow>
           (case Number rt idv of
              Finite idNum \<Rightarrow> approve idNum now s
            | _ \<Rightarrow> ((400, Failure ''invalid id''), s))))"

text \<open>The same request sent again and again, once for each of the given times.\<close>

fun PUT_retries :: "js_runtime \<Rightarrow> json option \<Rightarrow> string list \<Rightarrow> store \<Rightarrow> response list \<times> store" where
  "PUT_retries rt req [] s = ([], s)"
| "PUT_retries rt req (now # nows) s =
     (let (r, s1) = PUT rt now req s;
          (rs, s2) = PUT_retries rt req nows s1
      in (r # rs, s2))"

text \<open>What is stored: the two tables and the cached balances, without the journal.\<close>

definition stored :: "store \<Rightarrow> charge_request list \<times> user list \<times> (string \<times> int) list" where
  "stored s = (ChargeRequests s, Users s, balanceCache s)"

text \<open>The calls a handler added to the journal.\<close>

definition calls_since :: "store \<Rightarrow> store \<Rightarrow> store_call list" where
  "calls_since s s' = drop (length (journal s)) (journal s')"

section \<open>GET: list the charge requests\<close>

text \<open>
  \<open>.order("requested_at", { ascending: false, nullsFirst: false })\<close>: newest first, rows
  without a time last. Rows with equal times keep the order of the table.
\<close>

definition newest_first :: "charge_request list \<Rightarrow> charge_request list" where
  "newest_first rows =
     sort_key (\<lambda>r. case requested_at r of None \<Rightarrow> (1::nat, 0::int) | Some t \<Rightarrow> (0, - t)) rows"

text \<open>The embedded resource \<open>Users(phone_number,balance,last_charge_date)\<close> of a row.\<close>

definition to_item :: "user list \<Rightarrow> charge_request \<Rightarrow> item" where
  "to_item users r =
     (let joined = find (\<lambda>u. u_id u = user_id r) users in
      \<lparr>rest = r,
       phone = map_option phone_number joined,
       currentBalance = Option.bind joined balance,
       item_last_charge_date = map_option last_charge_date joined\<rparr>)"

text \<open>
  \<open>GET\<close>, lines 12 to 39. \<open>param\<close> is \<open>searchParams.get("status")\<close>, \<open>None\<close> when the
  URL has no such parameter; \<open>|| "all"\<close> replaces \<open>null\<close> and the empty string.
\<close>

definition GET :: "string option \<Rightarrow> store \<Rightarrow> response \<times> store" where
  "GET param s =
    (let status = (case param of None \<Rightarrow> ''all'' | Some v \<Rightarrow> if v = [] then ''all'' else v);
         query = ChargeRequests s;
         query1 = (if status = ''pending'' then filter (\<lambda>r. approved r = False) query else query);
         query2 = (if status = ''approved'' then filter (\<lambda>r. approved r = True) query1 else query1);
         data = newest_first query2;
         items = map (to_item (Users s)) data
     in ((200, Items items), record_call Select_ChargeRequests_list s))"

text \<open>The requests listed in an answer.\<close>

fun listed :: "response \<Rightarrow> charge_request list" where
  "listed (st, Items its) = map rest its"
| "listed (st, b) = []"

section \<open>POST: create a charge request\<close>

text \<open>
  Modelled from the spec: \<open>findUserByPhone\<close> is imported from \<open>@/lib/db\<close>, which is not
  among the sources. The specification keys the table of users by phone number: the user
  found is the first row with that phone number.
\<close>

definition findUserByPhone :: "string \<Rightarrow> store \<Rightarrow> user option \<times> store" where
  "findUserByPhone ph s =
     (find (\<lambda>u. phone_number u = ph) (Users s), record_call (Find_user_by_phone ph) s)"

definition insert_user :: "user \<Rightarrow> store \<Rightarrow> store" where
  "insert_user u s =
     record_call (Insert_Users (u_id u) (phone_number u)) (s\<lparr>Users := Users s @ [u]\<rparr>)"

definition insert_request :: "charge_request \<Rightarrow> store \<Rightarrow> store" where
  "insert_request r s =
     record_call (Insert_ChargeRequests (cr_id r) (user_id r))
       (s\<lparr>ChargeRequests := ChargeRequests s @ [r]\<rparr>)"

text \<open>
  What the database chooses when a row is inserted: the id of a new user, the id of the new
  request and its \<open>requested_at\<close>.
\<close>

record assigned =
  new_user_id :: int
  new_request_id :: int
  new_requested_at :: "int option"

text \<open>
  \<open>POST\<close>, lines 42 to 81. \<open>safeParse\<close> stands for \<open>ChargeRequestSchema.safeParse\<close> of
  \<open>@/lib/validators\<close> (not among the sources): the phone and the amount of a body that
  passes, \<open>None\<close> otherwise. \<open>pushReady\<close> is \<open>isPushReady()\<close>.
\<close>

definition POST ::
  "(json \<Rightarrow> (string \<times> int) option) \<Rightarrow> assigned \<Rightarrow> bool \<Rightarrow> json option \<Rightarrow> store \<Rightarrow> response \<times> store"
where
  "POST safeParse db pushReady req s =
    (case safeParse (json_or_empty req) of
       None \<Rightarrow> ((400, Validation_error), s)
     | Some (ph, amt) \<Rightarrow>
         (let (usr, s1) = findUserByPhone ph s;
              (userId, s2) =
                 (case usr of
                    Some u \<Rightarrow> (u_id u, s1)
                  | None \<Rightarrow>
                      (new_user_id db,
                       insert_user \<lparr>u_id = new_user_id db, phone_number = ph,
                                    balance = Some 0, last_charge_date = []\<rparr> s1));
              s3 = insert_request \<lparr>cr_id = new_request_id db, user_id = userId,
                                   amount = Some amt, approved = False,
                                   requested_at = new_requested_at db\<rparr> s2;
              s4 = (if pushReady then record_call Notify_admins s3 else s3)
          in ((200, Created (new_request_id db)), s4)))"

section \<open>Sequences of calls on the route\<close>

datatype api_call =
    Call_GET "string option"
  | Call_POST assigned bool "json option"
  | Call_PUT string "json option"

fun handle ::
  "js_runtime \<Rightarrow> (json \<Rightarrow> (string \<times> int) option) \<Rightarrow> api_call \<Rightarrow> store \<Rightarrow> response \<times> store"
where
  "handle rt safeParse (Call_GET param) s = GET param s"
| "handle rt safeParse (Call_POST db pushReady req) s = POST safeParse db pushReady req s"
| "handle rt safeParse (Call_PUT now req) s = PUT rt now req s"

fun serve ::
  "js_runtime \<Rightarrow> (json \<Rightarrow> (string \<times> int) option) \<Rightarrow> api_call list \<Rightarrow> store \<Rightarrow> store"
where
  "serve rt safeParse [] s = s"
| "serve rt safeParse (c # cs) s = serve rt safeParse cs (snd (handle rt safeParse c s))"

section \<open>The purchase page\<close>

text \<open>
  The state of \<open>PurchasePage\<close> (\<open>app/page.tsx\<close>) and the handlers that change it. Prices,
  quantities and the balance are integers.
\<close>

record Product =
  product_id :: int
  name :: string
  price :: int

record SelectedProduct =
  row_id :: string
  product :: Product
  quantity :: int

text \<open>An element of \<open>getSelectedProductsList()\<close>.\<close>

record line =
  line_id :: int
  line_name :: string
  line_price :: int
  line_quantity :: int

text \<open>What \<open>setPurchaseData\<close> stores: the receipt.\<close>

record receipt =
  products :: "line list"
  totalPrice :: int
  timestamp :: string
  remainingBalance :: int

record page =
  selectedProducts :: "SelectedProduct list"
  showProductModal :: bool
  editingProductId :: "string option"
  searchQuery :: string
  selectedProductInModal :: "Product option"
  quantityInModal :: int
  page_balance :: int
  showReceipt :: bool
  purchaseData :: "receipt option"
  page_phone :: "string option"
  confirmOpen :: bool

text \<open>The initial values of the \<open>useState\<close> calls.\<close>

definition initial_page :: page where
  "initial_page =
     \<lparr>selectedProducts = [], showProductModal = False, editingProductId = None,
      searchQuery = [], selectedProductInModal = None, quantityInModal = 1,
      page_balance = 0, showReceipt = False, purchaseData = None, page_phone = None,
      confirmOpen = False\<rparr>"

text \<open>A string in a condition: \<open>null\<close>, \<open>undefined\<close> and the empty string are falsy.\<close>

fun truthy :: "string option \<Rightarrow> bool" where
  "truthy None = False"
| "truthy (Some v) = (v \<noteq> [])"

definition closeProductModal :: "page \<Rightarrow> page" where
  "closeProductModal s =
     s\<lparr>showProductModal := False, selectedProductInModal := None, quantityInModal := 1,
       editingProductId := None, searchQuery := []\<rparr>"

definition openProductModal :: "string option \<Rightarrow> page \<Rightarrow> page" where
  "openProductModal editId s =
    (let s1 =
       (if truthy editId then
          (case find (\<lambda>p. Some (row_id p) = editId) (selectedProducts s) of
             Some existing \<Rightarrow>
               s\<lparr>selectedProductInModal := Some (product existing),
                 quantityInModal := quantity existing,
                 editingProductId := editId\<rparr>
           | None \<Rightarrow> s)
        else s\<lparr>selectedProductInModal := None, quantityInModal := 1, editingProductId := None\<rparr>)
     in s1\<lparr>searchQuery := [], showProductModal := True\<rparr>)"

definition handleProductSelect :: "Product \<Rightarrow> page \<Rightarrow> page" where
  "handleProductSelect p s = s\<lparr>selectedProductInModal := Some p\<rparr>"

text \<open>\<open>handleModalOk\<close>; \<open>stamp\<close> is \<open>Date.now().toString()\<close>.\<close>

definition handleModalOk :: "string \<Rightarrow> page \<Rightarrow> page" where
  "handleModalOk stamp s =
    (case selectedProductInModal s of
       None \<Rightarrow> s
     | Some p \<Rightarrow>
         (let newRow = \<lparr>row_id = (if truthy (editingProductId s)
                                    then the (editingProductId s) else stamp),
                        product = p, quantity = quantityInModal s\<rparr>;
              s1 = (if truthy (editingProductId s)
                    then s\<lparr>selectedProducts :=
                            map (\<lambda>r. if Some (row_id r) = editingProductId s then newRow else r)
                              (selectedProducts s)\<rparr>
                    else s\<lparr>selectedProducts := selectedProducts s @ [newRow]\<rparr>)
          in closeProductModal s1))"

definition removeProduct :: "string \<Rightarrow> page \<Rightarrow> page" where
  "removeProduct i s = s\<lparr>selectedProducts := filter (\<lambda>p. row_id p \<noteq> i) (selectedProducts s)\<rparr>"

text \<open>\<open>getTotalPrice\<close>: a quantity of 0 counts as 1 (\<open>item.quantity || 1\<close>).\<close>

definition getTotalPrice :: "page \<Rightarrow> int" where
  "getTotalPrice s =
     foldl (\<lambda>total item.
              total + price (product item) * (if quantity item = 0 then 1 else quantity item))
       0 (selectedProducts s)"

definition getSelectedProductsList :: "page \<Rightarrow> line list" where
  "getSelectedProductsList s =
     map (\<lambda>row. \<lparr>line_id = product_id (product row), line_name = name (product row),
                 line_price = price (product row), line_quantity = quantity row\<rparr>)
       (selectedProducts s)"

definition handleReceiptClose :: "page \<Rightarrow> page" where
  "handleReceiptClose s = s\<lparr>showReceipt := False, purchaseData := None, selectedProducts := []\<rparr>"

text \<open>
  An element of \<open>items\<close> in the body sent to \<open>/api/purchase\<close>; \<open>sent_product_id\<close> is the
  number whose text \<open>String(it.id)\<close> is sent.
\<close>

record sent_item =
  sent_product_id :: int
  qty :: int
  sent_price :: int
  total :: int

definition to_sent_item :: "line \<Rightarrow> sent_item" where
  "to_sent_item it =
     \<lparr>sent_product_id = line_id it, qty = line_quantity it, sent_price = line_price it,
      total = line_price it * line_quantity it\<rparr>"

text \<open>
  What the server does with the request is not decided by the page: it is an input.
  \<open>Thrown\<close>: \<open>apiFetch\<close> or \<open>response.json()\<close> throws. \<open>Reply ok balance_after error\<close>:
  \<open>response.ok\<close>, the field \<open>balance_after\<close> of the result (\<open>None\<close> when \<open>null\<close> or
  absent) and the JSON text of its field \<open>error\<close> (\<open>None\<close> when falsy).
\<close>

datatype reply = Thrown | Reply bool "int option" "string option"

datatype alert = Please_select_items | Shortage_of_Balance | Error_text string | Purchase_failed

text \<open>What the page does to the outside, in order.\<close>

datatype effect =
    Alert alert
  | Fetch_purchase "string option" "sent_item list"
  | Mutate_balance string int
  | Revalidate_balance string
  | Broadcast_BALANCE_CHANGED "string option" int
  | Console_error

text \<open>
  \<open>balanceKey\<close>: the phone reduced to its digits (\<open>replace(/\D/g, "")\<close>) when there are
  any; the key is the URL of \<open>/api/balance\<close> for these digits.
\<close>

definition is_digit :: "char \<Rightarrow> bool" where
  "is_digit c \<longleftrightarrow> 48 \<le> (of_char c :: nat) \<and> (of_char c :: nat) \<le> 57"

definition normalizedPhone :: "page \<Rightarrow> string option" where
  "normalizedPhone s =
     (if truthy (page_phone s) then Some (filter is_digit (the (page_phone s))) else None)"

definition balanceKey :: "page \<Rightarrow> string option" where
  "balanceKey s =
     (if truthy (normalizedPhone s)
      then Some (''/api/balance?phone='' @ the (normalizedPhone s)) else None)"

text \<open>
  \<open>handlePurchase\<close>, lines 281 to 348. \<open>stamp\<close> is \<open>formatYGNMinute(new Date())\<close>.
\<close>

definition handlePurchase :: "reply \<Rightarrow> string \<Rightarrow> page \<Rightarrow> effect list \<times> page" where
  "handlePurchase server stamp s =
    (let selectedList = getSelectedProductsList s;
         totalPrice = getTotalPrice s
     in if length selectedList = 0 then ([Alert Please_select_items], s)
        else if page_balance s < totalPrice then ([Alert Shortage_of_Balance], s)
        else
          (let request = Fetch_purchase (page_phone s) (map to_sent_item selectedList) in
           case server of
             Thrown \<Rightarrow> ([request, Console_error, Alert Purchase_failed], s)
           | Reply ok balance_after err \<Rightarrow>
               if ok then
                 (let newBal = (case balance_after of
                                  None \<Rightarrow> page_balance s - totalPrice | Some b \<Rightarrow> b);
                      refresh = (case balanceKey s of
                                   None \<Rightarrow> []
                                 | Some k \<Rightarrow> [Mutate_balance k newBal, Revalidate_balance k])
                  in (request # refresh @ [Broadcast_BALANCE_CHANGED (page_phone s) newBal],
                      s\<lparr>page_balance := newBal,
                        purchaseData := Some \<lparr>products = selectedList, totalPrice = totalPrice,
                                               timestamp = stamp, remainingBalance = newBal\<rparr>,
                        showReceipt := True\<rparr>))
               else ([request, Alert (case err of None \<Rightarrow> Purchase_failed
                                               | Some e \<Rightarrow> Error_text e)], s)))"

text \<open>
  What can happen on the page: the handlers above, the two quantity buttons of the modal
  (\<open>Math.max(1, quantityInModal - 1)\<close> and \<open>quantityInModal + 1\<close>), the button that clears
  the product chosen in the modal, the search box, a balance arriving from \<open>/api/balance\<close>,
  a phone being saved, and the confirmation of the purchase.
\<close>

datatype event =
    Open_modal "string option"
  | Close_modal
  | Select_product Product
  | Change_product
  | Decrease_quantity
  | Increase_quantity
  | Modal_ok string
  | Remove_product string
  | Search string
  | Balance_arrived int
  | Phone_saved "string option"
  | Open_confirm bool
  | Confirm_purchase reply string
  | Receipt_close

fun step :: "page \<Rightarrow> event \<Rightarrow> page" where
  "step s (Open_modal editId) = openProductModal editId s"
| "step s Close_modal = closeProductModal s"
| "step s (Select_product p) = handleProductSelect p s"
| "step s Change_product = s\<lparr>selectedProductInModal := None\<rparr>"
| "step s Decrease_quantity = s\<lparr>quantityInModal := max 1 (quantityInModal s - 1)\<rparr>"
| "step s Increase_quantity = s\<lparr>quantityInModal := quantityInModal s + 1\<rparr>"
| "step s (Modal_ok stamp) = handleModalOk stamp s"
| "step s (Remove_product i) = removeProduct i s"
| "step s (Search q) = s\<lparr>searchQuery := q\<rparr>"
| "step s (Balance_arrived b) = s\<lparr>page_balance := b\<rparr>"
| "step s (Phone_saved ph) = s\<lparr>page_phone := ph\<rparr>"
| "step s (Open_confirm b) = s\<lparr>confirmOpen := b\<rparr>"
| "step s (Confirm_purchase server stamp) =
     snd (handlePurchase server stamp (s\<lparr>confirmOpen := False\<rparr>))"
| "step s Receipt_close = handleReceiptClose s"

text \<open>The page after a sequence of events, from its initial state.\<close>

definition page_after :: "event list \<Rightarrow> page" where
  "page_after evs = foldl step initial_page evs"


section \<open>What an approval writes\<close>

text \<open>
  The table of requests with the row \<open>r\<close> marked approved; the balance the route computes
  for the user \<open>u\<close> and the request \<open>r\<close>; the table of users with that balance and the
  time written to the row \<open>u\<close>.
\<close>

definition flagged :: "charge_request \<Rightarrow> charge_request list \<Rightarrow> charge_request list" where
  "flagged r rows = map (\<lambda>x. if x = r then r\<lparr>approved := True\<rparr> else x) rows"

definition new_balance :: "user \<Rightarrow> charge_request \<Rightarrow> int number" where
  "new_balance u r = js_plus (Number_or_zero (balance u)) (Number_or_zero (amount r))"

definition credited :: "user \<Rightarrow> int number \<Rightarrow> string \<Rightarrow> user list \<Rightarrow> user list" where
  "credited u nb now rows =
     map (\<lambda>x. if x = u then u\<lparr>balance := to_column nb, last_charge_date := now\<rparr> else x) rows"


section \<open>A runtime to evaluate the model with\<close>

text \<open>
  The theorems below hold for every runtime. To evaluate the model on concrete requests,
  here is a small one. It reads a string of decimal digits as the number it denotes, the
  empty string as 0 and the empty array as 0, as JavaScript does, and a string with a
  character that is not a digit, such as \<open>abc\<close>, as \<open>NaN\<close>. It is not the whole conversion
  of JavaScript, which also reads signs, fractions, exponents, other radixes, surrounding
  white space and arrays of one element: for those this runtime answers \<open>NaN\<close>.
\<close>

fun digits_value :: "nat \<Rightarrow> string \<Rightarrow> nat option" where
  "digits_value acc [] = Some acc"
| "digits_value acc (c # cs) =
     (if is_digit c then digits_value (10 * acc + (of_char c - 48)) cs else None)"

definition digits_to_number :: "string \<Rightarrow> rat number" where
  "digits_to_number str =
     (case digits_value 0 str of None \<Rightarrow> NaN | Some n \<Rightarrow> Finite (of_nat n))"

fun plain_object_to_number :: "json \<Rightarrow> rat number" where
  "plain_object_to_number (JArray []) = Finite 0"
| "plain_object_to_number v = NaN"

definition sample_runtime :: js_runtime where
  "sample_runtime =
     \<lparr>StringToNumber = digits_to_number, ObjectToNumber = plain_object_to_number,
      destructure_message = Some ''Cannot destructure property id of null''\<rparr>"

section \<open>Example data\<close>

text \<open>
  A shop with one user, whose balance is 0, and one pending request of 5000 by that user;
  the bodies \<open>{"id": 1}\<close>, \<open>{"id": "abc"}\<close> and \<open>{"id": 9}\<close>; the shop after the
  request has been approved.
\<close>

definition shop0 :: store where
  "shop0 =
     \<lparr>ChargeRequests = [\<lparr>cr_id = 1, user_id = 7, amount = Some 5000, approved = False,
                          requested_at = Some 100\<rparr>],
      Users = [\<lparr>u_id = 7, phone_number = ''0912345'', balance = Some 0, last_charge_date = []\<rparr>],
      balanceCache = [(''0912345'', 0)],
      journal = [],
      flag_write = Succeeds, user_lookup = Succeeds, credit_write = Succeeds\<rparr>"

definition put1 :: "json option" where
  "put1 = Some (JObject [(''id'', JNumber (Finite 1))])"

definition put_abc :: "json option" where
  "put_abc = Some (JObject [(''id'', JString ''abc'')])"

definition put9 :: "json option" where
  "put9 = Some (JObject [(''id'', JNumber (Finite 9))])"

definition approval_time :: string where
  "approval_time = ''2025-01-01T00:00:00.000Z''"

definition shop1 :: store where
  "shop1 = snd (PUT sample_runtime approval_time put1 shop0)"


text \<open>
  The bodies \<open>{"id": true}\<close> and \<open>{"id": 1.5}\<close>. The example shop when the database
  refuses the write of the balance, when that write throws, and when the database refuses
  the write of the flag. A shop whose user has the balance \<open>2^53\<close> and a pending request
  of 1.
\<close>

definition put_true :: "json option" where
  "put_true = Some (JObject [(''id'', JBool True)])"

definition put_half :: "json option" where
  "put_half = Some (JObject [(''id'', JNumber (Finite (3 / 2)))])"

definition refusing_credit_shop :: store where
  "refusing_credit_shop = shop0\<lparr>credit_write := Errors\<rparr>"

definition throwing_credit_shop :: store where
  "throwing_credit_shop = shop0\<lparr>credit_write := Throws (Some ''fetch failed'')\<rparr>"

definition refusing_flag_shop :: store where
  "refusing_flag_shop = shop0\<lparr>flag_write := Errors\<rparr>"


text \<open>
  A shop with an approved request and two pending ones, and a sequence of calls on the
  route. The schema of \<open>POST\<close> is played by a check that the body has a non-empty phone and
  a positive whole amount.
\<close>

definition shop2 :: store where
  "shop2 =
     \<lparr>ChargeRequests =
        [\<lparr>cr_id = 1, user_id = 7, amount = Some 5000, approved = True, requested_at = Some 100\<rparr>,
         \<lparr>cr_id = 2, user_id = 7, amount = Some 3000, approved = False, requested_at = Some 200\<rparr>,
         \<lparr>cr_id = 3, user_id = 9, amount = None, approved = False, requested_at = None\<rparr>],
      Users = [\<lparr>u_id = 7, phone_number = ''0912345'', balance = Some 5000,
                last_charge_date = ''2025-01-01T00:00:00.000Z''\<rparr>],
      balanceCache = [],
      journal = [],
      flag_write = Succeeds, user_lookup = Succeeds, credit_write = Succeeds\<rparr>"

definition phone_and_amount :: "json \<Rightarrow> (string \<times> int) option" where
  "phone_and_amount b =
     (case (get_property b ''phone'', get_property b ''amount'') of
        (Some (JString ph), Some (JNumber (Finite a))) \<Rightarrow>
          (if ph \<noteq> [] \<and> 0 < a \<and> of_int \<lfloor>a\<rfloor> = a then Some (ph, \<lfloor>a\<rfloor>) else None)
      | _ \<Rightarrow> None)"

definition post_3000 :: "json option" where
  "post_3000 = Some (JObject [(''phone'', JString ''0912345''), (''amount'', JNumber (Finite 3000))])"

definition later_calls :: "api_call list" where
  "later_calls =
     [Call_PUT ''2025-01-02T00:00:00.000Z'' put1,
      Call_POST \<lparr>new_user_id = 8, new_request_id = 2, new_requested_at = Some 200\<rparr> True post_3000,
      Call_GET (Some ''pending''),
      Call_PUT ''2025-01-03T00:00:00.000Z'' (Some (JObject [(''id'', JNumber (Finite 2))])),
      Call_PUT ''2025-01-04T00:00:00.000Z'' put1]"

text \<open>
  Two carts: two teas at 2000 with a balance of 5000, and one tea with a balance of 1000.
\<close>

definition tea :: Product where
  "tea = \<lparr>product_id = 3, name = ''Tea'', price = 2000\<rparr>"


definition cart_C :: "event list" where
  "cart_C = [Balance_arrived 1000, Open_modal None, Select_product tea,
             Modal_ok ''1735689600000'']"

section \<open>Facts about doubles\<close>

lemma nearest_double_small: "n \<le> 2 ^ 53 \<Longrightarrow> nearest_double n = n"
  by (simp add: nearest_double_def)

lemma to_double_exact:
  assumes "\<bar>v\<bar> \<le> 2 ^ 53"
  shows "to_double v = Finite v"
proof -
  have "(2::int) ^ 53 \<le> 2 ^ 1023" by (rule power_increasing) simp_all
  moreover have "(2::int) ^ 1023 < 2 ^ 1024" by (rule power_strict_increasing) simp_all
  ultimately have "\<not> (2::int) ^ 1024 \<le> \<bar>v\<bar>" using assms by linarith
  then show ?thesis
    unfolding to_double_def Let_def nearest_double_small[OF assms]
    by (simp only: if_False) auto
qed



section \<open>Facts about the store and the approval\<close>

lemma get_property_not_null:
  "get_property (json_or_empty req) k = Some v \<Longrightarrow> json_or_empty req \<noteq> JNull"
  by (cases "json_or_empty req") simp_all

lemma PUT_finite_id:
  assumes "get_property (json_or_empty req) ''id'' = Some idv" "idv \<noteq> JNull"
    and "Number rt idv = Finite idNum"
  shows "PUT rt now req s = approve idNum now s"
  using assms get_property_not_null[OF assms(1)]
  by (cases idv) (simp_all add: PUT_def Let_def)

lemma PUT_not_finite:
  assumes "get_property (json_or_empty req) ''id'' = Some idv" "idv \<noteq> JNull"
    and "\<not> isFinite (Number rt idv)"
  shows "PUT rt now req s = ((400, Failure ''invalid id''), s)"
  using assms get_property_not_null[OF assms(1)]
  by (cases idv; cases "Number rt idv") (simp_all add: PUT_def Let_def)

text \<open>A boolean is a number for \<open>Number\<close>: \<open>{"id": true}\<close> asks for the request 1.\<close>

lemma boolean_id_is_looked_up:
  "PUT rt now (Some (JObject [(''id'', JBool True)])) s = approve 1 now s"
  by (simp add: PUT_def json_or_empty_def)

text \<open>An update that matches one row changes that row and no other.\<close>

lemma update_only_row:
  assumes "filter P xs = [r]"
  shows "map (\<lambda>x. if P x then f x else x) xs = map (\<lambda>x. if x = r then f r else x) xs"
proof (rule map_cong[OF refl])
  fix x assume "x \<in> set xs"
  have "set (filter P xs) = {r}" using assms by simp
  then have "P x \<longleftrightarrow> x = r" using \<open>x \<in> set xs\<close> by auto
  then show "(if P x then f x else x) = (if x = r then f r else x)" by auto
qed

lemma flag_rows:
  assumes "filter (\<lambda>x. eq_id idNum (cr_id x)) rows = [r]"
  shows "map (\<lambda>x. if eq_id idNum (cr_id x) then x\<lparr>approved := True\<rparr> else x) rows = flagged r rows"
  using update_only_row[OF assms, of "\<lambda>x. x\<lparr>approved := True\<rparr>"] by (simp add: flagged_def)

lemma credit_rows:
  assumes "filter (\<lambda>x. u_id x = uid) rows = [u]"
  shows "map (\<lambda>x. if u_id x = uid then x\<lparr>balance := b, last_charge_date := now\<rparr> else x) rows =
         map (\<lambda>x. if x = u then u\<lparr>balance := b, last_charge_date := now\<rparr> else x) rows"
  using update_only_row[OF assms, of "\<lambda>x. x\<lparr>balance := b, last_charge_date := now\<rparr>"] by simp

lemma maybeSingle_Some: "maybeSingle xs = Some r \<longleftrightarrow> xs = [r]"
  by (auto simp: maybeSingle_def split: list.splits)

lemma stored_record_call [simp]: "stored (record_call c s) = stored s"
  by (simp add: stored_def record_call_def)

lemma calls_since_record_call [simp]: "calls_since s (record_call c s) = [c]"
  by (simp add: calls_since_def record_call_def)

lemma ChargeRequests_record_call [simp]: "ChargeRequests (record_call c s) = ChargeRequests s"
  by (simp add: record_call_def)

lemma journal_record_call [simp]: "journal (record_call c s) = journal s @ [c]"
  by (simp add: record_call_def)

lemma record_call_fields [simp]:
  "Users (record_call c s) = Users s"
  "balanceCache (record_call c s) = balanceCache s"
  "flag_write (record_call c s) = flag_write s"
  "user_lookup (record_call c s) = user_lookup s"
  "credit_write (record_call c s) = credit_write s"
  by (simp_all add: record_call_def)

lemma calls_since_same [simp]: "calls_since s s = []"
  by (simp add: calls_since_def)

text \<open>The ends of an approval before the flag is written.\<close>

lemma approve_not_found:
  assumes "filter (\<lambda>r. eq_id idNum (cr_id r)) (ChargeRequests s) = []"
  shows "approve idNum now s = ((404, Failure ''not found''), record_call (Select_ChargeRequests_by_id idNum) s)"
  using assms by (simp add: approve_def select_request_def maybeSingle_def)

lemma approve_no_single_request:
  assumes "maybeSingle (filter (\<lambda>r. eq_id idNum (cr_id r)) (ChargeRequests s)) = None"
  shows "approve idNum now s =
           ((404, Failure ''not found''), record_call (Select_ChargeRequests_by_id idNum) s)"
  using assms by (simp add: approve_def select_request_def)

lemma approve_flagged_request:
  assumes "filter (\<lambda>r. eq_id idNum (cr_id r)) (ChargeRequests s) = [r]" "approved r"
  shows "approve idNum now s = ((200, Already), record_call (Select_ChargeRequests_by_id idNum) s)"
  using assms by (simp add: approve_def select_request_def maybeSingle_def)

text \<open>
  The approval of a pending request, call by call: what is answered and what is left, for
  each way the database can answer.
\<close>

lemma approve_pending_request:
  assumes "filter (\<lambda>x. eq_id idNum (cr_id x)) (ChargeRequests s) = [r]" and "\<not> approved r"
  shows "approve idNum now s =
    (let s2 = s\<lparr>ChargeRequests := (if flag_write s = Succeeds then flagged r (ChargeRequests s)
                                     else ChargeRequests s),
                journal := journal s @ [Select_ChargeRequests_by_id idNum,
                                        Update_ChargeRequests_approved idNum]\<rparr>;
         s3 = s2\<lparr>journal := journal s2 @ [Select_Users_by_id (user_id r)]\<rparr>
     in case flag_write s of
          Throws e \<Rightarrow> (caught e, s2)
        | _ \<Rightarrow>
          (case user_lookup s of
             Throws e \<Rightarrow> (caught e, s3)
           | Errors \<Rightarrow> ((404, Failure ''user not found''), s3)
           | Succeeds \<Rightarrow>
             (case maybeSingle (filter (\<lambda>x. u_id x = user_id r) (Users s)) of
                None \<Rightarrow> ((404, Failure ''user not found''), s3)
              | Some u \<Rightarrow>
                (let nb = new_balance u r;
                     s4 = s3\<lparr>journal := journal s3 @ [Update_Users_balance (user_id r) nb now]\<rparr>;
                     s5 = s4\<lparr>balanceCache := filter (\<lambda>e. fst e \<noteq> phone_number u) (balanceCache s),
                             journal := journal s4 @ [Invalidate_balance_cache (phone_number u)]\<rparr>
                 in case credit_write s of
                      Throws e \<Rightarrow> (caught e, s4)
                    | Errors \<Rightarrow> ((200, Balance nb), s5)
                    | Succeeds \<Rightarrow>
                        ((200, Balance nb), s5\<lparr>Users := credited u nb now (Users s)\<rparr>)))))"
proof -
  have sel: "select_request idNum s = (Some r, record_call (Select_ChargeRequests_by_id idNum) s)"
    using assms(1) by (simp add: select_request_def maybeSingle_def)
  have users: "\<And>u b. maybeSingle (filter (\<lambda>x. u_id x = user_id r) (Users s)) = Some u \<Longrightarrow>
      map (\<lambda>x. if u_id x = user_id r then x\<lparr>balance := b, last_charge_date := now\<rparr> else x) (Users s) =
      map (\<lambda>x. if x = u then u\<lparr>balance := b, last_charge_date := now\<rparr> else x) (Users s)"
    by (rule credit_rows) (simp add: maybeSingle_Some)
  show ?thesis
    using assms(2) users
    by (simp add: approve_def sel Let_def update_approved_def select_user_def update_user_def
        invalidateBalanceCache_def record_call_def flag_rows[OF assms(1)] new_balance_def
        credited_def
        split: outcome.splits option.splits)
qed

lemma approve_status:
  "fst (fst (approve idNum now s)) = 404 \<or> fst (fst (approve idNum now s)) = 200
   \<or> fst (fst (approve idNum now s)) = 500"
proof (cases "maybeSingle (filter (\<lambda>x. eq_id idNum (cr_id x)) (ChargeRequests s))")
  case None
  then show ?thesis by (simp add: approve_no_single_request)
next
  case (Some r)
  then have r: "filter (\<lambda>x. eq_id idNum (cr_id x)) (ChargeRequests s) = [r]"
    by (simp add: maybeSingle_Some)
  show ?thesis
  proof (cases "approved r")
    case True
    then show ?thesis by (simp add: approve_flagged_request[OF r])
  next
    case False
    show ?thesis
      by (simp add: approve_pending_request[OF r False] Let_def caught_def
          split: outcome.splits option.splits)
  qed
qed

text \<open>The table of requests after an approval: as it was, or with one pending row flagged.\<close>

lemma approve_rows:
  "ChargeRequests (snd (approve idNum now s)) = ChargeRequests s
   \<or> (\<exists>r. \<not> approved r \<and> ChargeRequests (snd (approve idNum now s)) = flagged r (ChargeRequests s))"
proof (cases "maybeSingle (filter (\<lambda>x. eq_id idNum (cr_id x)) (ChargeRequests s))")
  case None
  then show ?thesis by (simp add: approve_no_single_request)
next
  case (Some r)
  then have r: "filter (\<lambda>x. eq_id idNum (cr_id x)) (ChargeRequests s) = [r]"
    by (simp add: maybeSingle_Some)
  show ?thesis
  proof (cases "approved r")
    case True
    then show ?thesis by (simp add: approve_flagged_request[OF r])
  next
    case False
    have "ChargeRequests (snd (approve idNum now s)) = ChargeRequests s
        \<or> ChargeRequests (snd (approve idNum now s)) = flagged r (ChargeRequests s)"
      by (simp add: approve_pending_request[OF r False] Let_def
          split: outcome.splits option.splits)
    then show ?thesis using False by blast
  qed
qed

text \<open>The calls of one approval on the store, in order: a beginning of the five calls.\<close>

lemma approve_calls:
  "\<exists>uid nb ph. calls_since s (snd (approve idNum now s)) \<in>
     {[Select_ChargeRequests_by_id idNum],
      [Select_ChargeRequests_by_id idNum, Update_ChargeRequests_approved idNum],
      [Select_ChargeRequests_by_id idNum, Update_ChargeRequests_approved idNum,
       Select_Users_by_id uid],
      [Select_ChargeRequests_by_id idNum, Update_ChargeRequests_approved idNum,
       Select_Users_by_id uid, Update_Users_balance uid nb now],
      [Select_ChargeRequests_by_id idNum, Update_ChargeRequests_approved idNum,
       Select_Users_by_id uid, Update_Users_balance uid nb now, Invalidate_balance_cache ph]}"
proof (cases "maybeSingle (filter (\<lambda>x. eq_id idNum (cr_id x)) (ChargeRequests s))")
  case None
  then show ?thesis by (simp add: approve_no_single_request)
next
  case (Some r)
  then have r: "filter (\<lambda>x. eq_id idNum (cr_id x)) (ChargeRequests s) = [r]"
    by (simp add: maybeSingle_Some)
  show ?thesis
  proof (cases "approved r")
    case True
    then show ?thesis by (simp add: approve_flagged_request[OF r])
  next
    case False
    show ?thesis
    proof (cases "maybeSingle (filter (\<lambda>x. u_id x = user_id r) (Users s))")
      case None
      then show ?thesis
        by (intro exI[of _ "user_id r"])
           (simp add: approve_pending_request[OF r False] Let_def calls_since_def
            split: outcome.splits)
    next
      case (Some u)
      then show ?thesis
        by (intro exI[of _ "user_id r"] exI[of _ "new_balance u r"] exI[of _ "phone_number u"])
           (simp add: approve_pending_request[OF r False] Let_def calls_since_def
            split: outcome.splits)
    qed
  qed
qed

lemma PUT_rejects_or_approves:
  "(\<exists>idNum. PUT rt now req s = approve idNum now s)
   \<or> (snd (PUT rt now req s) = s \<and> fst (fst (PUT rt now req s)) \<in> {400, 500})"
  by (auto simp add: PUT_def Let_def split: option.splits json.splits number.splits)

lemma PUT_cases:
  obtains
    (rejected) "snd (PUT rt now req s) = s" "fst (fst (PUT rt now req s)) \<in> {400, 500}"
  | (approval) idNum where "PUT rt now req s = approve idNum now s"
  using PUT_rejects_or_approves[of rt now req s] by blast

text \<open>The calls of one \<open>PUT\<close> on the store, in order.\<close>

lemma PUT_calls:
  "\<exists>idNum uid nb ph. calls_since s (snd (PUT rt now req s)) \<in>
     {[],
      [Select_ChargeRequests_by_id idNum],
      [Select_ChargeRequests_by_id idNum, Update_ChargeRequests_approved idNum],
      [Select_ChargeRequests_by_id idNum, Update_ChargeRequests_approved idNum,
       Select_Users_by_id uid],
      [Select_ChargeRequests_by_id idNum, Update_ChargeRequests_approved idNum,
       Select_Users_by_id uid, Update_Users_balance uid nb now],
      [Select_ChargeRequests_by_id idNum, Update_ChargeRequests_approved idNum,
       Select_Users_by_id uid, Update_Users_balance uid nb now, Invalidate_balance_cache ph]}"
proof (cases rule: PUT_cases[of rt now req s])
  case rejected
  then show ?thesis by simp
next
  case (approval idNum)
  obtain uid nb ph where "calls_since s (snd (approve idNum now s)) \<in>
     {[Select_ChargeRequests_by_id idNum],
      [Select_ChargeRequests_by_id idNum, Update_ChargeRequests_approved idNum],
      [Select_ChargeRequests_by_id idNum, Update_ChargeRequests_approved idNum,
       Select_Users_by_id uid],
      [Select_ChargeRequests_by_id idNum, Update_ChargeRequests_approved idNum,
       Select_Users_by_id uid, Update_Users_balance uid nb now],
      [Select_ChargeRequests_by_id idNum, Update_ChargeRequests_approved idNum,
       Select_Users_by_id uid, Update_Users_balance uid nb now, Invalidate_balance_cache ph]}"
    using approve_calls[of s idNum now] by blast
  then show ?thesis unfolding approval
    by (intro exI[of _ idNum] exI[of _ uid] exI[of _ nb] exI[of _ ph]) blast
qed

text \<open>The example shop after the approval of its request.\<close>

lemma shop1_eq:
  "shop1 = \<lparr>ChargeRequests = [\<lparr>cr_id = 1, user_id = 7, amount = Some 5000, approved = True,
                          requested_at = Some 100\<rparr>],
      Users = [\<lparr>u_id = 7, phone_number = ''0912345'', balance = Some 5000, last_charge_date = approval_time\<rparr>],
      balanceCache = [],
      journal = [Select_ChargeRequests_by_id 1, Update_ChargeRequests_approved 1,
          Select_Users_by_id 7, Update_Users_balance 7 (Finite 5000) approval_time,
          Invalidate_balance_cache ''0912345''],
      flag_write = Succeeds, user_lookup = Succeeds, credit_write = Succeeds\<rparr>"
  by (simp add: shop1_def PUT_def put1_def json_or_empty_def approve_def select_request_def
      maybeSingle_def shop0_def eq_id_def record_call_def update_approved_def select_user_def
      update_user_def invalidateBalanceCache_def Number_or_zero_def to_double_exact Let_def)


section \<open>Approving a pending request\<close>




section \<open>Approving an approved request again\<close>

lemma PUT_retries_already:
  assumes "get_property (json_or_empty req) ''id'' = Some idv" and "idv \<noteq> JNull"
    and "Number rt idv = Finite idNum" and "approved r"
  shows "filter (\<lambda>x. eq_id idNum (cr_id x)) (ChargeRequests s) = [r] \<Longrightarrow>
     fst (PUT_retries rt req nows s) = replicate (length nows) (200, Already)
   \<and> stored (snd (PUT_retries rt req nows s)) = stored s
   \<and> journal (snd (PUT_retries rt req nows s)) =
       journal s @ replicate (length nows) (Select_ChargeRequests_by_id idNum)"
proof (induction nows arbitrary: s)
  case Nil
  then show ?case by simp
next
  case (Cons now nows)
  let ?s1 = "record_call (Select_ChargeRequests_by_id idNum) s"
  have step: "PUT rt now req s = ((200, Already), ?s1)"
    by (simp add: PUT_finite_id[OF assms(1-3)] approve_flagged_request[OF Cons.prems assms(4)])
  have "filter (\<lambda>x. eq_id idNum (cr_id x)) (ChargeRequests ?s1) = [r]"
    using Cons.prems by simp
  from Cons.IH[OF this] show ?case
    by (simp add: step split_beta replicate_append_same)
qed

text \<open>
  C2. For a charge request that is already approved (\<open>r\<close> is the one row with the id),
  \<open>PUT\<close> answers 200 with \<open>already: true\<close>, however often it is sent; nothing stored
  changes, neither a balance nor any other field, and the only call on the store is the
  lookup of the request.
\<close>

theorem approve_already_approved_is_noop:
  assumes "get_property (json_or_empty req) ''id'' = Some idv" and "idv \<noteq> JNull"
    and "Number rt idv = Finite idNum"
    and "filter (\<lambda>x. eq_id idNum (cr_id x)) (ChargeRequests s) = [r]" and "approved r"
  shows "fst (PUT_retries rt req nows s) = replicate (length nows) (200, Already)
       \<and> stored (snd (PUT_retries rt req nows s)) = stored s
       \<and> calls_since s (snd (PUT_retries rt req nows s)) =
           replicate (length nows) (Select_ChargeRequests_by_id idNum)"
  using PUT_retries_already[OF assms(1-3) assms(5) assms(4), of nows]
  by (simp add: calls_since_def)

text \<open>Scenario A: after the approval the balance is 5000; approved again, it still is.\<close>

theorem approve_already_approved_is_noop_witness:
  "map balance (Users shop1) = [Some 5000]
   \<and> fst (PUT_retries sample_runtime put1 [''2025-01-02T00:00:00.000Z'', ''2025-01-03T00:00:00.000Z''] shop1) =
       [(200, Already), (200, Already)]
   \<and> stored (snd (PUT_retries sample_runtime put1
         [''2025-01-02T00:00:00.000Z'', ''2025-01-03T00:00:00.000Z''] shop1)) = stored shop1"
proof -
  let ?r = "\<lparr>cr_id = 1, user_id = 7, amount = Some 5000, approved = True, requested_at = Some 100\<rparr>"
  have 1: "get_property (json_or_empty put1) ''id'' = Some (JNumber (Finite 1))"
    by (simp add: put1_def json_or_empty_def)
  have 2: "JNumber (Finite 1) \<noteq> JNull" by simp
  have 3: "Number sample_runtime (JNumber (Finite 1)) = Finite 1" by simp
  have 4: "filter (\<lambda>x. eq_id 1 (cr_id x)) (ChargeRequests shop1) = [?r]"
    by (simp add: shop1_eq eq_id_def)
  have 5: "approved ?r" by simp
  have 6: "map balance (Users shop1) = [Some 5000]" by (simp add: shop1_eq)
  show ?thesis
    using approve_already_approved_is_noop[OF 1 2 3 4 5,
        of "[''2025-01-02T00:00:00.000Z'', ''2025-01-03T00:00:00.000Z'']"] 6
    by (simp add: numeral_2_eq_2)
qed

section \<open>The flag and the credit\<close>


text \<open>
  The same happens when the write of the balance throws (answer 500) and when the database
  refuses it (answer 200). When the database refuses the write of the flag, the balance is
  written and the request stays pending (answer 200).
\<close>

lemma approve_failing_writes:
  "fst (PUT sample_runtime approval_time put1 throwing_credit_shop) = (500, Failure ''fetch failed'')
   \<and> map approved (ChargeRequests (snd (PUT sample_runtime approval_time put1 throwing_credit_shop))) =
       [True]
   \<and> map balance (Users (snd (PUT sample_runtime approval_time put1 throwing_credit_shop))) = [Some 0]
   \<and> fst (PUT sample_runtime approval_time put1 refusing_credit_shop) = (200, Balance (Finite 5000))
   \<and> map approved (ChargeRequests (snd (PUT sample_runtime approval_time put1 refusing_credit_shop))) =
       [True]
   \<and> map balance (Users (snd (PUT sample_runtime approval_time put1 refusing_credit_shop))) = [Some 0]
   \<and> fst (PUT sample_runtime approval_time put1 refusing_flag_shop) = (200, Balance (Finite 5000))
   \<and> map approved (ChargeRequests (snd (PUT sample_runtime approval_time put1 refusing_flag_shop))) =
       [False]
   \<and> map balance (Users (snd (PUT sample_runtime approval_time put1 refusing_flag_shop))) =
       [Some 5000]"
  by (simp add: PUT_def put1_def json_or_empty_def approve_def select_request_def
      maybeSingle_def throwing_credit_shop_def refusing_credit_shop_def refusing_flag_shop_def
      shop0_def eq_id_def record_call_def update_approved_def select_user_def update_user_def
      invalidateBalanceCache_def Number_or_zero_def to_double_exact caught_def Let_def)



section \<open>Approving a request that does not exist\<close>

lemma PUT_retries_not_found:
  assumes "get_property (json_or_empty req) ''id'' = Some idv" and "idv \<noteq> JNull"
    and "Number rt idv = Finite idNum"
  shows "filter (\<lambda>x. eq_id idNum (cr_id x)) (ChargeRequests s) = [] \<Longrightarrow>
     fst (PUT_retries rt req nows s) = replicate (length nows) (404, Failure ''not found'')
   \<and> stored (snd (PUT_retries rt req nows s)) = stored s
   \<and> journal (snd (PUT_retries rt req nows s)) =
       journal s @ replicate (length nows) (Select_ChargeRequests_by_id idNum)"
proof (induction nows arbitrary: s)
  case Nil
  then show ?case by simp
next
  case (Cons now nows)
  let ?s1 = "record_call (Select_ChargeRequests_by_id idNum) s"
  have step: "PUT rt now req s = ((404, Failure ''not found''), ?s1)"
    by (simp add: PUT_finite_id[OF assms] approve_not_found[OF Cons.prems])
  have "filter (\<lambda>x. eq_id idNum (cr_id x)) (ChargeRequests ?s1) = []"
    using Cons.prems by simp
  from Cons.IH[OF this] show ?case
    by (simp add: step split_beta replicate_append_same)
qed

text \<open>
  C6. For an id that is a finite number and is the id of no charge request, \<open>PUT\<close>
  answers 404 \<open>not found\<close>, however often it is sent; nothing stored changes (in particular
  no request is created), and the only calls on the store are the lookups.
\<close>

theorem approve_unknown_id_not_found:
  assumes "get_property (json_or_empty req) ''id'' = Some idv" and "idv \<noteq> JNull"
    and "Number rt idv = Finite idNum"
    and "filter (\<lambda>x. eq_id idNum (cr_id x)) (ChargeRequests s) = []"
  shows "fst (PUT_retries rt req nows s) = replicate (length nows) (404, Failure ''not found'')
       \<and> stored (snd (PUT_retries rt req nows s)) = stored s
       \<and> calls_since s (snd (PUT_retries rt req nows s)) =
           replicate (length nows) (Select_ChargeRequests_by_id idNum)"
  using PUT_retries_not_found[OF assms(1-3) assms(4), of nows]
  by (simp add: calls_since_def)

theorem approve_unknown_id_not_found_witness:
  "fst (PUT_retries sample_runtime put9 [''t1'', ''t2'', ''t3''] shop0) =
     [(404, Failure ''not found''), (404, Failure ''not found''), (404, Failure ''not found'')]
   \<and> stored (snd (PUT_retries sample_runtime put9 [''t1'', ''t2'', ''t3''] shop0)) = stored shop0"
proof -
  have 1: "get_property (json_or_empty put9) ''id'' = Some (JNumber (Finite 9))"
    by (simp add: put9_def json_or_empty_def)
  have 2: "JNumber (Finite 9) \<noteq> JNull" by simp
  have 3: "Number sample_runtime (JNumber (Finite 9)) = Finite 9" by simp
  have 4: "filter (\<lambda>x. eq_id 9 (cr_id x)) (ChargeRequests shop0) = []"
    by (simp add: shop0_def eq_id_def)
  show ?thesis
    using approve_unknown_id_not_found[OF 1 2 3 4, of "[''t1'', ''t2'', ''t3'']"]
    by (simp add: numeral_3_eq_3)
qed

section \<open>An id that is not a number\<close>

text \<open>
  The id \<open>true\<close> is not a number, and it is not answered 400: it is the request 1, which
  is approved and credited. The id 1.5 is the id of no request and is answered 404.
\<close>

theorem boolean_id_approves_counterexample:
  "fst (PUT sample_runtime approval_time put_true shop0) = (200, Balance (Finite 5000))
   \<and> map approved (ChargeRequests (snd (PUT sample_runtime approval_time put_true shop0))) = [True]
   \<and> map balance (Users (snd (PUT sample_runtime approval_time put_true shop0))) = [Some 5000]
   \<and> fst (PUT sample_runtime approval_time put_half shop0) = (404, Failure ''not found'')"
  by (simp add: PUT_def put_true_def put_half_def json_or_empty_def approve_def select_request_def
      maybeSingle_def shop0_def eq_id_def record_call_def update_approved_def select_user_def
      update_user_def invalidateBalanceCache_def Number_or_zero_def to_double_exact Let_def)

text \<open>
  C7, amended. For a body that carries an id (not \<open>null\<close>): when the conversion of the id
  by \<open>Number\<close> is \<open>NaN\<close> or infinite, \<open>PUT\<close> answers 400 \<open>invalid id\<close> and leaves the
  state as it is, journal included, so that no lookup and no write is made; when the
  conversion is a finite number, whatever the id is, \<open>PUT\<close> approves the request with that
  number and does not answer 400.
\<close>

theorem invalid_id_exactly_when_not_finite:
  assumes "get_property (json_or_empty req) ''id'' = Some idv" and "idv \<noteq> JNull"
  shows "(\<not> isFinite (Number rt idv) \<longrightarrow> PUT rt now req s = ((400, Failure ''invalid id''), s))
       \<and> (\<forall>idNum. Number rt idv = Finite idNum \<longrightarrow>
             PUT rt now req s = approve idNum now s \<and> fst (fst (PUT rt now req s)) \<noteq> 400)"
proof (intro conjI impI allI)
  assume "\<not> isFinite (Number rt idv)"
  then show "PUT rt now req s = ((400, Failure ''invalid id''), s)"
    by (rule PUT_not_finite[OF assms])
next
  fix idNum assume n: "Number rt idv = Finite idNum"
  show "PUT rt now req s = approve idNum now s"
    by (rule PUT_finite_id[OF assms n])
  then show "fst (fst (PUT rt now req s)) \<noteq> 400"
    using approve_status[of idNum now s] by auto
qed

text \<open>Scenario E: the id \<open>abc\<close>. And the id \<open>true\<close>, which is the request 1.\<close>

theorem invalid_id_exactly_when_not_finite_witness:
  "PUT sample_runtime approval_time put_abc shop0 = ((400, Failure ''invalid id''), shop0)
   \<and> PUT sample_runtime approval_time put_true shop0 = approve 1 approval_time shop0
   \<and> fst (fst (PUT sample_runtime approval_time put_true shop0)) \<noteq> 400"
proof -
  have 1: "get_property (json_or_empty put_abc) ''id'' = Some (JString ''abc'')"
    by (simp add: put_abc_def json_or_empty_def)
  have 2: "JString ''abc'' \<noteq> JNull" by simp
  have 3: "\<not> isFinite (Number sample_runtime (JString ''abc''))"
    by (simp add: sample_runtime_def digits_to_number_def is_digit_def)
  have 4: "get_property (json_or_empty put_true) ''id'' = Some (JBool True)"
    by (simp add: put_true_def json_or_empty_def)
  have 5: "JBool True \<noteq> JNull" by simp
  have 6: "Number sample_runtime (JBool True) = Finite 1" by simp
  have a: "PUT sample_runtime approval_time put_abc shop0 = ((400, Failure ''invalid id''), shop0)"
    using invalid_id_exactly_when_not_finite[OF 1 2, of sample_runtime approval_time shop0] 3
    by blast
  have b: "PUT sample_runtime approval_time put_true shop0 = approve 1 approval_time shop0
      \<and> fst (fst (PUT sample_runtime approval_time put_true shop0)) \<noteq> 400"
    using invalid_id_exactly_when_not_finite[OF 4 5, of sample_runtime approval_time shop0] 6
    by blast
  show ?thesis using a b by blast
qed

section \<open>The order of the writes\<close>

text \<open>
  C8. In the calls that one \<open>PUT\<close> makes on the store, a write of a balance is preceded
  by the write of the approved flag of a request, which is itself preceded by the lookup of
  that request (where the flag is checked): the credit is never applied first.
\<close>

theorem flag_write_precedes_credit:
  assumes "j < length (calls_since s (snd (PUT rt now req s)))"
    and "calls_since s (snd (PUT rt now req s)) ! j = Update_Users_balance uid nb t"
  shows "\<exists>idNum i k. k < i \<and> i < j
           \<and> calls_since s (snd (PUT rt now req s)) ! k = Select_ChargeRequests_by_id idNum
           \<and> calls_since s (snd (PUT rt now req s)) ! i = Update_ChargeRequests_approved idNum"
proof -
  let ?c = "calls_since s (snd (PUT rt now req s))"
  obtain idNum uid' nb' ph where c: "?c \<in>
     {[],
      [Select_ChargeRequests_by_id idNum],
      [Select_ChargeRequests_by_id idNum, Update_ChargeRequests_approved idNum],
      [Select_ChargeRequests_by_id idNum, Update_ChargeRequests_approved idNum,
       Select_Users_by_id uid'],
      [Select_ChargeRequests_by_id idNum, Update_ChargeRequests_approved idNum,
       Select_Users_by_id uid', Update_Users_balance uid' nb' now],
      [Select_ChargeRequests_by_id idNum, Update_ChargeRequests_approved idNum,
       Select_Users_by_id uid', Update_Users_balance uid' nb' now, Invalidate_balance_cache ph]}"
    using PUT_calls[of s rt now req] by blast
  have first: "?c ! 0 = Select_ChargeRequests_by_id idNum \<and> ?c ! 1 = Update_ChargeRequests_approved idNum
      \<and> j = 3"
    using c assms by (auto simp: nth_Cons' less_Suc_eq split: if_splits)
  have "(0::nat) < 1 \<and> (1::nat) < 3" by simp
  then show ?thesis using first by blast
qed

theorem flag_write_precedes_credit_witness:
  "3 < length (calls_since shop0 (snd (PUT sample_runtime approval_time put1 shop0)))
   \<and> calls_since shop0 (snd (PUT sample_runtime approval_time put1 shop0)) ! 3 =
       Update_Users_balance 7 (Finite 5000) approval_time
   \<and> (\<exists>idNum i k. k < i \<and> i < 3
        \<and> calls_since shop0 (snd (PUT sample_runtime approval_time put1 shop0)) ! k =
            Select_ChargeRequests_by_id idNum
        \<and> calls_since shop0 (snd (PUT sample_runtime approval_time put1 shop0)) ! i =
            Update_ChargeRequests_approved idNum)"
proof -
  have c: "calls_since shop0 (snd (PUT sample_runtime approval_time put1 shop0)) =
      [Select_ChargeRequests_by_id 1, Update_ChargeRequests_approved 1,
       Select_Users_by_id 7, Update_Users_balance 7 (Finite 5000) approval_time,
       Invalidate_balance_cache ''0912345'']"
    using shop1_eq by (simp add: shop1_def calls_since_def shop0_def)
  have 1: "3 < length (calls_since shop0 (snd (PUT sample_runtime approval_time put1 shop0)))"
    by (simp add: c)
  have 2: "calls_since shop0 (snd (PUT sample_runtime approval_time put1 shop0)) ! 3 =
       Update_Users_balance 7 (Finite 5000) approval_time"
    by (simp add: c)
  show ?thesis using 1 2 flag_write_precedes_credit[OF 1 2] by simp
qed

section \<open>Approved requests do not change\<close>

lemma flagging_keeps_approved_rows:
  assumes "i < length rows" "approved (rows ! i)" "\<not> approved r"
  shows "flagged r rows ! i = rows ! i"
  using assms by (auto simp: flagged_def)

lemma approve_keeps_approved:
  assumes "i < length (ChargeRequests s)" "approved (ChargeRequests s ! i)"
  shows "i < length (ChargeRequests (snd (approve idNum now s)))
       \<and> ChargeRequests (snd (approve idNum now s)) ! i = ChargeRequests s ! i"
  using approve_rows[of idNum now s] assms flagging_keeps_approved_rows[OF assms]
  by (auto simp: flagged_def)

lemma PUT_keeps_approved:
  assumes "i < length (ChargeRequests s)" "approved (ChargeRequests s ! i)"
  shows "i < length (ChargeRequests (snd (PUT rt now req s)))
       \<and> ChargeRequests (snd (PUT rt now req s)) ! i = ChargeRequests s ! i"
proof (cases rule: PUT_cases[of rt now req s])
  case rejected
  then show ?thesis using assms by simp
next
  case (approval idNum)
  then show ?thesis using approve_keeps_approved[OF assms] by simp
qed

lemma POST_appends:
  "ChargeRequests (snd (POST safeParse db pushReady req s)) = ChargeRequests s
   \<or> (\<exists>r. ChargeRequests (snd (POST safeParse db pushReady req s)) = ChargeRequests s @ [r])"
  by (auto simp add: POST_def Let_def findUserByPhone_def insert_user_def insert_request_def
      record_call_def split: option.splits prod.splits)

lemma POST_keeps_rows:
  assumes "i < length (ChargeRequests s)"
  shows "i < length (ChargeRequests (snd (POST safeParse db pushReady req s)))
       \<and> ChargeRequests (snd (POST safeParse db pushReady req s)) ! i = ChargeRequests s ! i"
  using POST_appends[of safeParse db pushReady req s] assms
  by (auto simp add: nth_append)

lemma GET_keeps_rows: "ChargeRequests (snd (GET param s)) = ChargeRequests s"
  by (simp add: GET_def Let_def)

lemma handle_keeps_approved:
  assumes "i < length (ChargeRequests s)" "approved (ChargeRequests s ! i)"
  shows "i < length (ChargeRequests (snd (handle rt safeParse c s)))
       \<and> ChargeRequests (snd (handle rt safeParse c s)) ! i = ChargeRequests s ! i"
proof (cases c)
  case (Call_GET param)
  then show ?thesis using assms by (simp add: GET_keeps_rows)
next
  case (Call_POST db pushReady req)
  then show ?thesis using POST_keeps_rows[OF assms(1)] by simp
next
  case (Call_PUT now req)
  then show ?thesis using PUT_keeps_approved[OF assms] by simp
qed

text \<open>
  C9. A charge request that is approved stays as it is, whatever calls of \<open>GET\<close>,
  \<open>POST\<close> and \<open>PUT\<close> follow: the row keeps its place in the table and all its fields, its
  amount and its approved flag among them.
\<close>

theorem approved_request_immutable:
  assumes "i < length (ChargeRequests s)" and "approved (ChargeRequests s ! i)"
  shows "i < length (ChargeRequests (serve rt safeParse calls s))
       \<and> ChargeRequests (serve rt safeParse calls s) ! i = ChargeRequests s ! i"
  using assms
proof (induction calls arbitrary: s)
  case Nil
  then show ?case by simp
next
  case (Cons c calls)
  let ?s1 = "snd (handle rt safeParse c s)"
  have 1: "i < length (ChargeRequests ?s1)" and 2: "ChargeRequests ?s1 ! i = ChargeRequests s ! i"
    using handle_keeps_approved[OF Cons.prems] by simp_all
  have "approved (ChargeRequests ?s1 ! i)" using 2 Cons.prems(2) by simp
  from Cons.IH[OF 1 this] 2 show ?case by simp
qed

theorem approved_request_immutable_witness:
  "approved (ChargeRequests shop1 ! 0)
   \<and> ChargeRequests (serve sample_runtime phone_and_amount later_calls shop1) ! 0 =
       \<lparr>cr_id = 1, user_id = 7, amount = Some 5000, approved = True, requested_at = Some 100\<rparr>
   \<and> length (ChargeRequests (serve sample_runtime phone_and_amount later_calls shop1)) = 2"
proof -
  have 1: "0 < length (ChargeRequests shop1)" by (simp add: shop1_eq)
  have 2: "approved (ChargeRequests shop1 ! 0)" by (simp add: shop1_eq)
  have 3: "length (ChargeRequests (serve sample_runtime phone_and_amount later_calls shop1)) = 2"
    unfolding shop1_eq later_calls_def
    by (simp add: PUT_def put1_def json_or_empty_def approve_def select_request_def
      maybeSingle_def eq_id_def record_call_def update_approved_def select_user_def
      update_user_def invalidateBalanceCache_def Number_or_zero_def to_double_exact Let_def POST_def GET_def
      phone_and_amount_def post_3000_def findUserByPhone_def insert_request_def insert_user_def)
  show ?thesis
    using approved_request_immutable[OF 1 2, of sample_runtime phone_and_amount later_calls] 2 3
    by (simp add: shop1_eq)
qed

section \<open>Listing by status\<close>

lemma rest_to_item [simp]: "rest (to_item us r) = r"
  by (simp add: to_item_def Let_def)

lemma listed_GET:
  "listed (fst (GET param s)) =
     newest_first
       (if param = Some ''pending'' then filter (\<lambda>r. \<not> approved r) (ChargeRequests s)
        else if param = Some ''approved'' then filter approved (ChargeRequests s)
        else ChargeRequests s)"
  by (cases param) (auto simp add: GET_def Let_def comp_def)

text \<open>
  C10. The requests that \<open>GET\<close> lists are, as a multiset: for the status \<open>pending\<close>
  the requests that are not approved; for the status \<open>approved\<close> the approved ones; for
  every other value of the parameter, an absent one included, all requests.
\<close>

theorem GET_status_filter:
  "mset (listed (fst (GET param s))) =
     (if param = Some ''pending'' then filter_mset (\<lambda>r. \<not> approved r) (mset (ChargeRequests s))
      else if param = Some ''approved'' then filter_mset approved (mset (ChargeRequests s))
      else mset (ChargeRequests s))"
  by (simp add: listed_GET newest_first_def)

theorem GET_status_filter_witness:
  "map cr_id (listed (fst (GET (Some ''pending'') shop2))) = [2, 3]
   \<and> map cr_id (listed (fst (GET (Some ''approved'') shop2))) = [1]
   \<and> map cr_id (listed (fst (GET (Some ''all'') shop2))) = [2, 1, 3]
   \<and> map cr_id (listed (fst (GET None shop2))) = [2, 1, 3]
   \<and> map cr_id (listed (fst (GET (Some ''Pending'') shop2))) = [2, 1, 3]
   \<and> mset (listed (fst (GET (Some ''pending'') shop2))) =
       filter_mset (\<lambda>r. \<not> approved r) (mset (ChargeRequests shop2))"
  using GET_status_filter[of "Some ''pending''" shop2]
  by (simp add: listed_GET newest_first_def shop2_def)

section \<open>The purchase page: totals and quantities\<close>






text \<open>
  A row with the quantity 0 would count as one item in the total. No state of the page has
  such a row:
\<close>

lemma zero_quantity_counts_as_one:
  "getTotalPrice (initial_page\<lparr>selectedProducts :=
      [\<lparr>row_id = ''1735689600000'', product = tea, quantity = 0\<rparr>]\<rparr>) = 2000"
  by (simp add: getTotalPrice_def tea_def)


lemma page_C:
  "page_after cart_C = initial_page\<lparr>selectedProducts :=
      [\<lparr>row_id = ''1735689600000'', product = tea, quantity = 1\<rparr>], page_balance := 1000\<rparr>"
  by (simp add: page_after_def cart_C_def initial_page_def openProductModal_def
      handleProductSelect_def handleModalOk_def closeProductModal_def Let_def)


section \<open>A purchase beyond the balance\<close>

text \<open>
  C4. When the total computed for a cart that is not empty exceeds the balance,
  \<open>handlePurchase\<close> reports the shortage of balance and does nothing else: the state of the
  page, the balance included, is unchanged, and no request is sent to the server, whatever
  the server would have answered. (On the states the page reaches, the computed total is
  the sum of price times quantity over the items: \<open>getTotalPrice_sum\<close>.)
\<close>

theorem insufficient_balance_no_mutation:
  assumes "selectedProducts s \<noteq> []" and "page_balance s < getTotalPrice s"
  shows "handlePurchase server stamp s = ([Alert Shortage_of_Balance], s)"
  using assms by (simp add: handlePurchase_def getSelectedProductsList_def Let_def)

text \<open>Scenario C: a balance of 1000 and one item at 2000.\<close>

theorem insufficient_balance_no_mutation_witness:
  "getTotalPrice (page_after cart_C) = 2000 \<and> page_balance (page_after cart_C) = 1000
   \<and> handlePurchase (Reply True (Some 0) None) ''2025-01-01 09:30'' (page_after cart_C) =
       ([Alert Shortage_of_Balance], page_after cart_C)"
proof -
  have 1: "selectedProducts (page_after cart_C) \<noteq> []" by (simp add: page_C)
  have 2: "getTotalPrice (page_after cart_C) = 2000"
    by (simp add: page_C getTotalPrice_def tea_def)
  have 3: "page_balance (page_after cart_C) < getTotalPrice (page_after cart_C)"
    by (simp add: 2) (simp add: page_C)
  show ?thesis
    using insufficient_balance_no_mutation[OF 1 3, of "Reply True (Some 0) None" "''2025-01-01 09:30''"] 2
    by (simp add: page_C)
qed

section \<open>The receipt of a purchase\<close>



end
